theory Spec2Isabelle
  imports Main "HOL-Library.Sublist"
begin

section \<open>The atfrunner command-line runner\<close>

text \<open>
  A shallow embedding of \<^verbatim>\<open>runner.go\<close> and \<^verbatim>\<open>main.go\<close>. The Runner struct is a record,
  every method is a function that takes the Runner and the world and returns them updated.
  The world is the list of calls the program has made so far to the packages it imports
  (\<^verbatim>\<open>atf\<close>, \<^verbatim>\<open>utils\<close>, \<^verbatim>\<open>os\<close>, \<^verbatim>\<open>fmt\<close>), oldest first. What those packages answer is a
  parameter of the model (the record \<open>ext\<close>): each answer may depend on the calls made so
  far, so two identical calls can get two different answers. A Go panic is the \<open>Inl\<close> of a
  sum, a returned \<^verbatim>\<open>error\<close> is an \<open>error option\<close> (\<open>None\<close> is \<^verbatim>\<open>nil\<close>).
\<close>

subsection \<open>Values\<close>

text \<open>A Go \<^verbatim>\<open>error\<close>, known to the program only by the text of its \<^verbatim>\<open>Error()\<close> method
  (\<^verbatim>\<open>errors.New\<close> builds an \<^verbatim>\<open>errorString\<close>).\<close>

datatype error = errorString string

fun Error_text :: "error \<Rightarrow> string" where
  "Error_text (errorString s) = s"

text \<open>A Go panic: the run-time error of a nil pointer dereference, or \<^verbatim>\<open>panic(msg)\<close>.\<close>

datatype panic = nil_dereference | panic_value string

text \<open>\<^verbatim>\<open>utils.Severity\<close>, the levels this program names.\<close>

datatype Severity = Debug | Informational | Notice | Warning | Error

text \<open>\<^verbatim>\<open>atf.TestSet\<close> and \<^verbatim>\<open>atf.TestReport\<close>: the fields the runner reads and writes. Both are
  held by pointer in Go, so each is an option where the runner holds it.\<close>

record TestSet =
  Name :: string

record TestReport =
  TestSet :: "TestSet option"
  Started :: string
  Finished :: string

text \<open>The log handlers the runner creates, each with the arguments of its constructor:
  file name or syslog address, format, minimum severity.\<close>

datatype Handler =
    FileHandler string string Severity
  | StreamHandler string Severity
  | SyslogHandler string string Severity

fun handler_level :: "Handler \<Rightarrow> Severity" where
  "handler_level (FileHandler f fmt l) = l"
| "handler_level (StreamHandler fmt l) = l"
| "handler_level (SyslogHandler ip fmt l) = l"

record Log =
  Handlers :: "Handler list"

record Runner =
  tr :: "TestReport option"
  input :: string
  workdir :: string
  logfile :: string
  syslog :: string
  report :: string
  cssfile :: string
  xml :: bool
  json :: bool
  par :: bool
  debug :: bool
  logger :: Log

subsection \<open>The world\<close>

text \<open>One constructor per call that leaves the program. The \<open>Log_\<close> events are the calls to
  the methods of \<^verbatim>\<open>r.logger\<close>; \<open>Call_Fprint f s\<close> writes \<open>s\<close> to the file opened as \<open>f\<close>.\<close>

datatype Event =
    Call_Collect string
  | Call_CreateTestReport TestSet
  | Call_Getenv string
  | Call_NowFile
  | Call_Now
  | Call_MkdirAll string
  | Call_NewFileHandler string string Severity
  | Call_NewStreamHandler string Severity
  | Call_NewSyslogHandler string string Severity
  | Log_Start
  | Log_Close
  | Log_Notice string
  | Log_Warning string
  | Log_Error string
  | Log_LogS string string
  | Log_String
  | Call_Execute TestSet
  | Call_HTML
  | Call_XML
  | Call_JSON
  | Call_String
  | Call_Name
  | Call_OpenFile string
  | Call_Create string
  | Call_Fprint string string
  | Call_Close string
  | Call_CopyFile string string
  | Call_Printf string
  | Call_Exit nat

type_synonym World = "Event list"

text \<open>What the imported packages answer. The first argument of each function is the world
  at the moment of the call. \<open>utils_CopyFile\<close> takes destination and source, in the order
  the runner passes them. \<open>ts_Execute\<close> gives the argument lists with which the executor
  calls the logging closure, in order. The constructors of handlers say whether the
  pointer they return is non-nil. \<open>strconv_Quote\<close> is the \<^verbatim>\<open>%q\<close> verb of \<^verbatim>\<open>fmt\<close>.\<close>

record ext =
  runtime_GOOS :: string
  os_Getenv :: "World \<Rightarrow> string \<Rightarrow> string"
  utils_NowFile :: "World \<Rightarrow> string"
  utils_Now :: "World \<Rightarrow> string"
  strconv_Quote :: "string \<Rightarrow> string"
  atf_Collect :: "World \<Rightarrow> string \<Rightarrow> TestSet option"
  atf_CreateTestReport :: "World \<Rightarrow> TestSet \<Rightarrow> TestReport option"
  os_MkdirAll :: "World \<Rightarrow> string \<Rightarrow> error option"
  utils_NewFileHandler :: "World \<Rightarrow> string \<Rightarrow> string \<Rightarrow> Severity \<Rightarrow> bool \<times> error option"
  utils_NewStreamHandler :: "World \<Rightarrow> string \<Rightarrow> Severity \<Rightarrow> bool"
  utils_NewSyslogHandler :: "World \<Rightarrow> string \<Rightarrow> string \<Rightarrow> Severity \<Rightarrow> bool"
  ts_Execute :: "World \<Rightarrow> TestSet \<Rightarrow> string list list"
  tr_HTML :: "World \<Rightarrow> TestReport \<Rightarrow> string \<times> error option"
  tr_XML :: "World \<Rightarrow> TestReport \<Rightarrow> string \<times> error option"
  tr_JSON :: "World \<Rightarrow> TestReport \<Rightarrow> string \<times> error option"
  tr_String :: "World \<Rightarrow> TestReport \<Rightarrow> string"
  tr_Name :: "World \<Rightarrow> TestReport \<Rightarrow> string"
  logger_String :: "World \<Rightarrow> Log \<Rightarrow> string"
  os_OpenFile :: "World \<Rightarrow> string \<Rightarrow> error option"
  os_Create :: "World \<Rightarrow> string \<Rightarrow> error option"
  utils_CopyFile :: "World \<Rightarrow> string \<Rightarrow> string \<Rightarrow> error option"

subsection \<open>The functions of Go's standard library that the runner computes with\<close>

text \<open>\<^verbatim>\<open>filepath.ToSlash\<close>: the separator is the backslash on Windows and the slash
  elsewhere, where the path is returned as it is.\<close>

definition ToSlash :: "string \<Rightarrow> string \<Rightarrow> string" where
  "ToSlash goos p =
     (if goos = ''windows''
      then map (\<lambda>c. if c = CHR 0x5C then CHR ''/'' else c) p
      else p)"

text \<open>\<^verbatim>\<open>path.Split\<close>: the path up to and with its last slash, and the rest.\<close>

definition path_Split :: "string \<Rightarrow> string \<times> string" where
  "path_Split p =
     (let f = rev (takeWhile (\<lambda>c. c \<noteq> CHR ''/'') (rev p))
      in (take (length p - length f) p, f))"

text \<open>\<^verbatim>\<open>path.IsAbs\<close>.\<close>

definition path_IsAbs :: "string \<Rightarrow> bool" where
  "path_IsAbs p = (case p of [] \<Rightarrow> False | c # cs \<Rightarrow> c = CHR ''/'')"

text \<open>\<^verbatim>\<open>path.Clean\<close>. The loop of the library reads the path at index \<open>r\<close> and writes a
  buffer of length \<open>w\<close>; here the unread part of the path and the buffer are lists.
  \<open>backtrack\<close> is the inner loop that drops the last element of the buffer on a
  \<^verbatim>\<open>..\<close> element.\<close>

fun backtrack :: "nat \<Rightarrow> string \<Rightarrow> nat \<Rightarrow> nat" where
  "backtrack dotdot out w =
     (if dotdot < w \<and> out ! w \<noteq> CHR ''/'' then backtrack dotdot out (w - 1) else w)"

text \<open>\<open>ends_element p\<close>: the unread path \<open>p\<close> is at its end or at a slash.
  \<open>dot_ends_element p\<close>: \<open>p\<close> starts with a dot that ends an element.\<close>

fun ends_element :: "string \<Rightarrow> bool" where
  "ends_element [] = True"
| "ends_element (c # cs) = (c = CHR ''/'')"

fun dot_ends_element :: "string \<Rightarrow> bool" where
  "dot_ends_element [] = False"
| "dot_ends_element (c # cs) = (c = CHR ''.'' \<and> ends_element cs)"

function clean_loop :: "bool \<Rightarrow> nat \<Rightarrow> string \<Rightarrow> string \<Rightarrow> string" where
  "clean_loop rooted dotdot out [] = out"
| "clean_loop rooted dotdot out (c # cs) =
     (if c = CHR ''/'' then clean_loop rooted dotdot out cs
      else if c = CHR ''.'' \<and> ends_element cs then clean_loop rooted dotdot out cs
      else if c = CHR ''.'' \<and> dot_ends_element cs
      then
        (if dotdot < length out
         then clean_loop rooted dotdot
                (take (backtrack dotdot out (length out - 1)) out) (tl cs)
         else if \<not> rooted
         then (let out' = (if 0 < length out then out @ ''/'' else out) @ ''..''
               in clean_loop rooted (length out') out' (tl cs))
         else clean_loop rooted dotdot out (tl cs))
      else
        (let out' = (if rooted \<and> length out \<noteq> 1 \<or> \<not> rooted \<and> length out \<noteq> 0
                     then out @ ''/'' else out)
         in clean_loop rooted dotdot
              (out' @ c # takeWhile (\<lambda>x. x \<noteq> CHR ''/'') cs)
              (dropWhile (\<lambda>x. x \<noteq> CHR ''/'') cs)))"
  by pat_completeness auto
termination
  by (relation "measure (\<lambda>(rooted, dotdot, out, p). length p)")
     (simp_all only: in_measure prod.case list.size length_tl wf_measure add_Suc_right
        add_0_right less_Suc_eq_le length_dropWhile_le order_refl diff_le_self)

definition path_Clean :: "string \<Rightarrow> string" where
  "path_Clean p =
     (case p of
        [] \<Rightarrow> ''.''
      | c # cs \<Rightarrow>
        (let rooted = (c = CHR ''/'');
             out = (if rooted then clean_loop True 1 ''/'' cs
                    else clean_loop False 0 [] p)
         in if out = [] then ''.'' else out))"

text \<open>\<^verbatim>\<open>path.Join\<close>: the elements from the first non-empty one on, joined by slashes and
  cleaned; the empty string when every element is empty.\<close>

definition path_Join :: "string list \<Rightarrow> string" where
  "path_Join elem =
     (case dropWhile (\<lambda>e. e = []) elem of
        [] \<Rightarrow> []
      | e # es \<Rightarrow> path_Clean (foldl (\<lambda>acc x. acc @ ''/'' @ x) e es))"

text \<open>The \<^verbatim>\<open>%q\<close> verb on a string of printable ASCII characters: double quotes around it,
  a backslash before each double quote and each backslash. The environments of the
  examples below use it as their \<open>strconv_Quote\<close>.\<close>

definition Quote_ascii :: "string \<Rightarrow> string" where
  "Quote_ascii s =
     [CHR 0x22] @
     concat (map (\<lambda>c. if c = CHR 0x22 \<or> c = CHR 0x5C then [CHR 0x5C, c] else [c]) s) @
     [CHR 0x22]"

subsection \<open>runner.go\<close>

text \<open>\<^verbatim>\<open>NewRunner\<close>: a zero Runner with a new, empty logger.\<close>

definition NewRunner :: Runner where
  "NewRunner =
     \<lparr>tr = None, input = [], workdir = [], logfile = [], syslog = [], report = [],
      cssfile = [], xml = False, json = False, par = False, debug = False,
      logger = \<lparr>Handlers = []\<rparr>\<rparr>"

text \<open>\<^verbatim>\<open>setWorkDir\<close>. The environment variable is read before the time stamp.\<close>

definition setWorkDir :: "ext \<Rightarrow> string \<Rightarrow> string \<Rightarrow> Runner \<Rightarrow> World \<Rightarrow> Runner \<times> World" where
  "setWorkDir X basedir tsName r w =
     (if basedir = []
      then
        (let var = (if runtime_GOOS X = ''windows'' then ''USERPROFILE'' else ''HOME'');
             home = os_Getenv X w var;
             w1 = w @ [Call_Getenv var];
             stamp = utils_NowFile X w1;
             w2 = w1 @ [Call_NowFile];
             basedir' = path_Join [home, ''atfrunner'', tsName @ ''_'' @ stamp]
         in (r\<lparr>workdir := ToSlash (runtime_GOOS X) basedir'\<rparr>, w2))
      else (r\<lparr>workdir := ToSlash (runtime_GOOS X) basedir\<rparr>, w))"

text \<open>\<^verbatim>\<open>collect\<close>.\<close>

definition collect :: "ext \<Rightarrow> Runner \<Rightarrow> World \<Rightarrow> error option \<times> Runner \<times> World" where
  "collect X r w =
     (if input r \<noteq> []
      then
        (let ts = atf_Collect X w (input r);
             w1 = w @ [Call_Collect (input r)]
         in case ts of
              None \<Rightarrow> (Some (errorString ''Test set is empty.''), r, w1)
            | Some t \<Rightarrow>
                (None, r\<lparr>tr := atf_CreateTestReport X w1 t\<rparr>, w1 @ [Call_CreateTestReport t]))
      else (Some (errorString ''There's no configuration file defined.''), r, w))"

text \<open>The default levels of the log handlers.\<close>

definition defSyslogLevel :: Severity where
  "defSyslogLevel = Notice"

definition defFileLevel :: Severity where
  "defFileLevel = Informational"

definition defStreamLevel :: Severity where
  "defStreamLevel = Notice"

text \<open>\<^verbatim>\<open>r.logger.Handlers = r.logger.AddHandler(h)\<close>: the handler is added after the ones
  the logger has.\<close>

definition AddHandler :: "Handler \<Rightarrow> Runner \<Rightarrow> Runner" where
  "AddHandler h r = r\<lparr>logger := (logger r)\<lparr>Handlers := Handlers (logger r) @ [h]\<rparr>\<rparr>"

text \<open>\<^verbatim>\<open>createLoggers\<close>. The stream handler gets the level of the syslog handler
  (\<^verbatim>\<open>sLevel\<close>); \<^verbatim>\<open>defStreamLevel\<close> is not read.\<close>

definition createLoggers ::
  "ext \<Rightarrow> string \<Rightarrow> bool \<Rightarrow> Runner \<Rightarrow> World \<Rightarrow> error option \<times> Runner \<times> World" where
  "createLoggers X format dbg r w =
     (let fLevel = (if dbg then Debug else defFileLevel);
          sLevel = (if dbg then Debug else defSyslogLevel);
          f = utils_NewFileHandler X w (logfile r) format fLevel;
          w1 = w @ [Call_NewFileHandler (logfile r) format fLevel]
      in case snd f of
           Some e \<Rightarrow> (Some e, r, w1)
         | None \<Rightarrow>
             (let r1 = (if fst f then AddHandler (FileHandler (logfile r) format fLevel) r else r);
                  l = utils_NewStreamHandler X w1 format sLevel;
                  w2 = w1 @ [Call_NewStreamHandler format sLevel];
                  r2 = (if l then AddHandler (StreamHandler format sLevel) r1 else r1)
              in if syslog r \<noteq> []
                 then
                   (let s = utils_NewSyslogHandler X w2 (syslog r) format sLevel;
                        w3 = w2 @ [Call_NewSyslogHandler (syslog r) format sLevel];
                        r3 = (if s then AddHandler (SyslogHandler (syslog r) format sLevel) r2
                              else r2)
                    in (None, r3, w3))
                 else (None, r2, w2)))"

abbreviation nl :: string where
  "nl \<equiv> [CHR 0x0A]"

text \<open>\<^verbatim>\<open>createLog\<close>.\<close>

definition createLog :: "ext \<Rightarrow> Runner \<Rightarrow> World \<Rightarrow> error option \<times> Runner \<times> World" where
  "createLog X r w =
     (let lf = (if logfile r \<noteq> []
                then (if path_IsAbs (logfile r) then logfile r
                      else path_Join [workdir r, logfile r])
                else path_Join [workdir r, ''output.log'']);
          r1 = r\<lparr>logfile := lf\<rparr>
      in case createLoggers X ''%s %s %s'' (debug r1) r1 w of
           (Some e, r2, w1) \<Rightarrow> (Some e, r2, w1)
         | (None, r2, w1) \<Rightarrow>
             (None, r2, w1 @ [Log_Start, Log_Warning (''Log successfully created'' @ nl)]))"

text \<open>\<^verbatim>\<open>initialize\<close>. \<^verbatim>\<open>r.tr.TestSet.Name\<close> is read through two pointers.\<close>

definition initialize ::
  "ext \<Rightarrow> Runner \<Rightarrow> World \<Rightarrow> (panic + error option) \<times> Runner \<times> World" where
  "initialize X r w =
     (case collect X r w of
        (Some e, r1, w1) \<Rightarrow> (Inr (Some e), r1, w1)
      | (None, r1, w1) \<Rightarrow>
          (case tr r1 of
             None \<Rightarrow> (Inl nil_dereference, r1, w1)
           | Some t \<Rightarrow>
               (case TestSet t of
                  None \<Rightarrow> (Inl nil_dereference, r1, w1)
                | Some ts \<Rightarrow>
                    (case setWorkDir X (workdir r1) (Name ts) r1 w1 of
                       (r2, w2) \<Rightarrow>
                         (case os_MkdirAll X w2 (workdir r2) of
                            Some e \<Rightarrow> (Inr (Some e), r2, w2 @ [Call_MkdirAll (workdir r2)])
                          | None \<Rightarrow>
                              (case createLog X r2 (w2 @ [Call_MkdirAll (workdir r2)]) of
                                 (err, r3, w3) \<Rightarrow> (Inr err, r3, w3)))))))"

text \<open>The logging closure that \<^verbatim>\<open>Run\<close> passes to the executor.\<close>

definition callback :: "string list \<Rightarrow> World \<Rightarrow> (panic + unit) \<times> World" where
  "callback params w =
     (if length params < 2
      then (Inl (panic_value ''Callback: Wrong number of parameters.''), w)
      else
        (let lvl = params ! 0;
             msg = params ! 1
         in (Inr (), w @ [Log_LogS lvl msg])))"

text \<open>The executor calling the closure, once for each argument list. A panic of the
  closure is not recovered by the executor: it ends the calls.\<close>

fun run_callbacks :: "string list list \<Rightarrow> World \<Rightarrow> (panic + unit) \<times> World" where
  "run_callbacks [] w = (Inr (), w)"
| "run_callbacks (params # rest) w =
     (case callback params w of
        (Inl p, w1) \<Rightarrow> (Inl p, w1)
      | (Inr u, w1) \<Rightarrow> run_callbacks rest w1)"

text \<open>\<^verbatim>\<open>Run\<close>. The executor leaves the name of the test set and the pointer to it as they
  are. \<^verbatim>\<open>r.tr.Finished\<close> is written before the name is read for the next log line.\<close>

definition Run :: "ext \<Rightarrow> Runner \<Rightarrow> World \<Rightarrow> (panic + unit) \<times> Runner \<times> World" where
  "Run X r w =
     (case tr r of
        None \<Rightarrow> (Inl nil_dereference, r, w)
      | Some t \<Rightarrow>
          (let started = utils_Now X w;
               t1 = t\<lparr>Started := started\<rparr>;
               w1 = w @ [Call_Now, Log_Notice (''     Started: '' @ started @ nl)];
               ex = (case TestSet t1 of
                       None \<Rightarrow> (Inr (), w1)
                     | Some ts \<Rightarrow>
                         (let w2 = w1 @ [Log_Notice (''# Starting Test set: '' @
                                           strconv_Quote X (Name ts) @ nl)]
                          in run_callbacks (ts_Execute X w2 ts) (w2 @ [Call_Execute ts])))
           in case ex of
                (Inl p, w3) \<Rightarrow> (Inl p, r\<lparr>tr := Some t1\<rparr>, w3)
              | (Inr u, w3) \<Rightarrow>
                  (let finished = utils_Now X w3;
                       t2 = t1\<lparr>Finished := finished\<rparr>;
                       w4 = w3 @ [Call_Now]
                   in case TestSet t2 of
                        None \<Rightarrow> (Inl nil_dereference, r\<lparr>tr := Some t2\<rparr>, w4)
                      | Some ts \<Rightarrow>
                          (Inr (), r\<lparr>tr := Some t2\<rparr>,
                           w4 @ [Log_Notice (''# Test set: '' @ strconv_Quote X (Name ts) @
                                   '' end.'' @ nl),
                                 Log_Notice (''     Finished: '' @ finished @ nl)]))))"

definition mandatoryCSS :: string where
  "mandatoryCSS = ''cfg/always.css''"

text \<open>\<^verbatim>\<open>createHTMLHeader\<close>.\<close>

definition createHTMLHeader :: "ext \<Rightarrow> Runner \<Rightarrow> string \<Rightarrow> string" where
  \<open>createHTMLHeader X r name =
     ''<!DOCTYPE html>'' @ nl @
     ''<html>'' @ nl @ ''<head>'' @ nl @
     ''<meta charset='' @ strconv_Quote X ''utf-8'' @ ''>'' @ nl @
     ''<title>Report: '' @ name @ ''</title>'' @ nl @
     ''<link rel="stylesheet" type="text/css" '' @
     ''href='' @ strconv_Quote X (snd (path_Split mandatoryCSS)) @ ''>'' @ nl @
     ''<link rel="stylesheet" type="text/css" '' @
     ''href='' @ strconv_Quote X (snd (path_Split (cssfile r))) @ ''>'' @ nl @
     ''</head>'' @ nl\<close>

text \<open>\<^verbatim>\<open>createXMLReport\<close>. The deferred \<^verbatim>\<open>Close\<close> runs when the function returns.\<close>

definition createXMLReport ::
  "ext \<Rightarrow> string \<Rightarrow> Runner \<Rightarrow> World \<Rightarrow> (panic + error option) \<times> World" where
  "createXMLReport X filename r w =
     (let x = ''<?xml version='' @ strconv_Quote X ''1.0'' @ '' encoding='' @
              strconv_Quote X ''UTF-8'' @ ''?>''
      in case tr r of
           None \<Rightarrow> (Inl nil_dereference, w)
         | Some t \<Rightarrow>
             (case tr_XML X w t of
                (trXML, Some e) \<Rightarrow> (Inr (Some e), w @ [Call_XML])
              | (trXML, None) \<Rightarrow>
                  (case os_OpenFile X (w @ [Call_XML]) filename of
                     Some e \<Rightarrow> (Inr (Some e), w @ [Call_XML, Call_OpenFile filename])
                   | None \<Rightarrow>
                       (Inr None,
                        w @ [Call_XML, Call_OpenFile filename,
                             Call_Fprint filename (x @ trXML), Call_Close filename]))))"

text \<open>\<^verbatim>\<open>createJSONReport\<close>.\<close>

definition createJSONReport ::
  "ext \<Rightarrow> string \<Rightarrow> Runner \<Rightarrow> World \<Rightarrow> (panic + error option) \<times> World" where
  "createJSONReport X filename r w =
     (case tr r of
        None \<Rightarrow> (Inl nil_dereference, w)
      | Some t \<Rightarrow>
          (case tr_JSON X w t of
             (js, Some e) \<Rightarrow> (Inr (Some e), w @ [Call_JSON])
           | (js, None) \<Rightarrow>
               (case os_Create X (w @ [Call_JSON]) filename of
                  Some e \<Rightarrow> (Inr (Some e), w @ [Call_JSON, Call_Create filename])
                | None \<Rightarrow>
                    (Inr None,
                     w @ [Call_JSON, Call_Create filename,
                          Call_Fprint filename js, Call_Close filename]))))"

text \<open>\<^verbatim>\<open>createHTMLReport\<close>. The error of the first \<^verbatim>\<open>CopyFile\<close> is assigned to \<^verbatim>\<open>err\<close>
  and then overwritten by the error of the second, which alone is tested.\<close>

definition createHTMLReport ::
  "ext \<Rightarrow> string \<Rightarrow> Runner \<Rightarrow> World \<Rightarrow> (panic + error option) \<times> World" where
  "createHTMLReport X filename r w =
     (case tr r of
        None \<Rightarrow> (Inl nil_dereference, w)
      | Some t \<Rightarrow>
          (case TestSet t of
             None \<Rightarrow> (Inl nil_dereference, w)
           | Some ts \<Rightarrow>
               (let html = createHTMLHeader X r (Name ts) @ ''<body>'' @ nl
                in case tr_HTML X w t of
                     (h, Some e) \<Rightarrow> (Inr (Some e), w @ [Call_HTML])
                   | (h, None) \<Rightarrow>
                       (let html' = html @ h @ ''</body>'' @ nl @ ''</html>'' @ nl
                        in case os_OpenFile X (w @ [Call_HTML]) filename of
                             Some e \<Rightarrow> (Inr (Some e), w @ [Call_HTML, Call_OpenFile filename])
                           | None \<Rightarrow>
                               (let w1 = w @ [Call_HTML, Call_OpenFile filename,
                                              Call_Fprint filename html'];
                                    f1 = snd (path_Split mandatoryCSS);
                                    f2 = snd (path_Split (cssfile r));
                                    d1 = path_Join [workdir r, f1];
                                    d2 = path_Join [workdir r, f2];
                                    err1 = utils_CopyFile X w1 d1 mandatoryCSS;
                                    w2 = w1 @ [Call_CopyFile d1 mandatoryCSS];
                                    err2 = utils_CopyFile X w2 d2 (cssfile r);
                                    w3 = w2 @ [Call_CopyFile d2 (cssfile r)]
                                in (Inr err2, w3 @ [Call_Close filename]))))))"

text \<open>\<^verbatim>\<open>CreateReports\<close>. In the two inner cases \<open>Some res\<close> is a \<^verbatim>\<open>return\<close> from inside
  the \<^verbatim>\<open>if\<close> block and \<open>None\<close> is falling through to the next block.\<close>

definition CreateReports :: "ext \<Rightarrow> Runner \<Rightarrow> World \<Rightarrow> (panic + unit) \<times> World" where
  "CreateReports X r w =
     (let fh = ToSlash (runtime_GOOS X) (path_Join [workdir r, ''report.html''])
      in case createHTMLReport X fh r w of
           (Inl p, w1) \<Rightarrow> (Inl p, w1)
         | (Inr (Some e), w1) \<Rightarrow>
             (Inr (), w1 @ [Log_Error (''XML report could not be created.'' @ nl),
                            Log_Error (''Reason: '' @ Error_text e @ nl)])
         | (Inr None, w1) \<Rightarrow>
             (let w2 = w1 @ [Log_Notice (''HTML report '' @ strconv_Quote X fh @
                                         '' created.'' @ nl)];
                  fx = ToSlash (runtime_GOOS X) (path_Join [workdir r, ''report.xml''])
              in case (if xml r
                       then (case createXMLReport X fx r w2 of
                               (Inl p, w3) \<Rightarrow> (Some (Inl p), w3)
                             | (Inr (Some e), w3) \<Rightarrow>
                                 (Some (Inr ()),
                                  w3 @ [Log_Error (''XML report could not be created.'' @ nl),
                                        Log_Error (''Reason: '' @ Error_text e @ nl)])
                             | (Inr None, w3) \<Rightarrow>
                                 (None,
                                  w3 @ [Log_Notice (''XML report '' @ strconv_Quote X fx @
                                                    '' created.'' @ nl)]))
                       else (None, w2)) of
                   (Some res, w4) \<Rightarrow> (res, w4)
                 | (None, w4) \<Rightarrow>
                     (let fj = ToSlash (runtime_GOOS X) (path_Join [workdir r, ''report.json''])
                      in if json r
                         then (case createJSONReport X fj r w4 of
                                 (Inl p, w5) \<Rightarrow> (Inl p, w5)
                               | (Inr (Some e), w5) \<Rightarrow>
                                   (Inr (),
                                    w5 @ [Log_Error (''JSON report could not be created.'' @ nl),
                                          Log_Error (''Reason: '' @ Error_text e @ nl)])
                               | (Inr None, w5) \<Rightarrow>
                                   (Inr (),
                                    w5 @ [Log_Notice (''JSON report '' @ strconv_Quote X fj @
                                                      '' created.'' @ nl)]))
                         else (Inr (), w4))))"

text \<open>\<^verbatim>\<open>SetParallel\<close>.\<close>

definition SetParallel :: "Runner \<Rightarrow> Runner" where
  "SetParallel r = r\<lparr>par := True\<rparr>"

text \<open>\<^verbatim>\<open>display\<close>: every line goes to the standard output. \<open>fmt_t\<close> is the \<^verbatim>\<open>%t\<close> verb.\<close>

definition fmt_t :: "bool \<Rightarrow> string" where
  "fmt_t b = (if b then ''true'' else ''false'')"

definition display :: "ext \<Rightarrow> bool \<Rightarrow> Runner \<Rightarrow> World \<Rightarrow> (panic + unit) \<times> World" where
  "display X complete r w =
     (let w1 = w @
            [Call_Printf (''Input config file: '' @ strconv_Quote X (input r) @ nl),
             Call_Printf (''Working dir: '' @ strconv_Quote X (workdir r) @ nl),
             Call_Printf (''Log filename: '' @ strconv_Quote X (logfile r) @ nl),
             Call_Printf (''Syslog server IP: '' @ strconv_Quote X (syslog r) @ nl),
             Call_Printf (''Final report name: '' @ strconv_Quote X (report r) @ nl),
             Call_Printf (''(Optional) CCS file for HTML report: '' @
                          strconv_Quote X (cssfile r) @ nl),
             Call_Printf (''Debug node enabled? '' @ fmt_t (debug r) @ nl),
             Call_Printf (''Parallel execution? '' @ fmt_t (par r) @ nl),
             Call_Printf (''Loggers:'' @ nl)];
          w2 = w1 @ [Log_String, Call_Printf (logger_String X w1 (logger r) @ nl)]
      in case tr r of
           Some t \<Rightarrow>
             (if complete
              then (Inr (), w2 @ [Call_String, Call_Printf (tr_String X w2 t)])
              else (Inr (), w2 @ [Call_Name,
                                  Call_Printf (''TestSet: '' @ strconv_Quote X (tr_Name X w2 t) @ nl)]))
         | None \<Rightarrow> (Inr (), w2 @ [Call_Printf (''TestSet not defined yet.'' @ nl)]))"

subsection \<open>main.go\<close>

text \<open>The command line as the \<^verbatim>\<open>flag\<close> package has parsed it: the value of each flag that
  was given. \<^verbatim>\<open>parseArgs\<close> stores each value, or the default of the flag, in the Runner.
  No flag is bound to \<^verbatim>\<open>r.par\<close>.\<close>

record Flags =
  flag_i :: "string option"
  flag_w :: "string option"
  flag_l :: "string option"
  flag_s :: "string option"
  flag_r :: "string option"
  flag_c :: "string option"
  flag_X :: "bool option"
  flag_J :: "bool option"
  flag_d :: "bool option"

definition flag_value :: "'a \<Rightarrow> 'a option \<Rightarrow> 'a" where
  "flag_value dflt given = (case given of None \<Rightarrow> dflt | Some v \<Rightarrow> v)"

definition parseArgs :: "Flags \<Rightarrow> Runner \<Rightarrow> Runner" where
  "parseArgs fl r =
     r\<lparr>input := flag_value [] (flag_i fl),
       workdir := flag_value [] (flag_w fl),
       logfile := flag_value [] (flag_l fl),
       syslog := flag_value [] (flag_s fl),
       report := flag_value [] (flag_r fl),
       cssfile := flag_value ''cfg/report_def.css'' (flag_c fl),
       xml := flag_value False (flag_X fl),
       json := flag_value False (flag_J fl),
       debug := flag_value False (flag_d fl)\<rparr>"

text \<open>\<^verbatim>\<open>main\<close>: the exit status of the process, or the panic that ends it.\<close>

definition main :: "ext \<Rightarrow> Flags \<Rightarrow> World \<Rightarrow> (panic + nat) \<times> Runner \<times> World" where
  "main X fl w =
     (let r = parseArgs fl NewRunner
      in case initialize X r w of
           (Inl p, r1, w1) \<Rightarrow> (Inl p, r1, w1)
         | (Inr (Some e), r1, w1) \<Rightarrow>
             (Inr 1, r1,
              w1 @ [Call_Printf (Error_text e @ nl),
                    Call_Printf (''Please define the input configuration file'' @ nl),
                    Call_Printf (''Use '' @ [CHR 0x27] @ ''-h'' @ [CHR 0x27] @
                                 '' switch to display help'' @ nl),
                    Call_Printf (''Exiting...'' @ nl),
                    Call_Exit 1])
         | (Inr None, r1, w1) \<Rightarrow>
             (case Run X r1 w1 of
                (Inl p, r2, w2) \<Rightarrow> (Inl p, r2, w2)
              | (Inr u, r2, w2) \<Rightarrow>
                  (case CreateReports X r2 w2 of
                     (Inl p, w3) \<Rightarrow> (Inl p, r2, w3)
                   | (Inr u', w3) \<Rightarrow> (Inr 0, r2, w3 @ [Log_Close]))))"

subsection \<open>An environment and a Runner for the examples\<close>

text \<open>A POSIX system where every call succeeds: \<^verbatim>\<open>HOME\<close> is \<^verbatim>\<open>/home/u\<close>, the collector
  returns a test set named \<^verbatim>\<open>Demo\<close>, the executor logs one line, and the renderer of the
  HTML report returns the fragment \<^verbatim>\<open><p>ok</p>\<close>.\<close>

definition demo_ext :: ext where
  "demo_ext =
     \<lparr>runtime_GOOS = ''linux'',
      os_Getenv = (\<lambda>w v. if v = ''HOME'' then ''/home/u'' else []),
      utils_NowFile = (\<lambda>w. ''2015_03_01_12_00_00''),
      utils_Now = (\<lambda>w. ''2015-03-01 12:00:00''),
      strconv_Quote = Quote_ascii,
      atf_Collect = (\<lambda>w p. Some \<lparr>Name = ''Demo''\<rparr>),
      atf_CreateTestReport = (\<lambda>w ts. Some \<lparr>TestSet = Some ts, Started = [], Finished = []\<rparr>),
      os_MkdirAll = (\<lambda>w p. None),
      utils_NewFileHandler = (\<lambda>w f fm l. (True, None)),
      utils_NewStreamHandler = (\<lambda>w fm l. True),
      utils_NewSyslogHandler = (\<lambda>w ip fm l. True),
      ts_Execute = (\<lambda>w ts. [[''notice'', ''case 1 passed'']]),
      tr_HTML = (\<lambda>w t. (''<p>ok</p>'', None)),
      tr_XML = (\<lambda>w t. (''<report/>'', None)),
      tr_JSON = (\<lambda>w t. (''{}'', None)),
      tr_String = (\<lambda>w t. ''Demo''),
      tr_Name = (\<lambda>w t. ''Demo''),
      logger_String = (\<lambda>w l. []),
      os_OpenFile = (\<lambda>w f. None),
      os_Create = (\<lambda>w f. None),
      utils_CopyFile = (\<lambda>w d s. None)\<rparr>"

text \<open>A Runner as \<^verbatim>\<open>initialize\<close> leaves it, with both optional reports requested.\<close>

definition demo_Runner :: Runner where
  "demo_Runner =
     \<lparr>tr = Some \<lparr>TestSet = Some \<lparr>Name = ''Demo''\<rparr>, Started = [], Finished = []\<rparr>,
      input = ''demo.json'', workdir = ''/tmp/w'', logfile = ''/tmp/w/output.log'',
      syslog = [], report = [], cssfile = ''cfg/report_def.css'',
      xml = True, json = True, par = False, debug = False,
      logger = \<lparr>Handlers = []\<rparr>\<rparr>"

text \<open>The same system where no file can be opened for writing.\<close>

definition html_fail_ext :: ext where
  "html_fail_ext =
     demo_ext\<lparr>os_OpenFile :=
       (\<lambda>w f. Some (errorString (''open '' @ f @ '': permission denied'')))\<rparr>"

text \<open>The same system where the renderer of the XML report fails.\<close>

definition xml_fail_ext :: ext where
  "xml_fail_ext =
     demo_ext\<lparr>tr_XML := (\<lambda>w t. ([], Some (errorString ''xml: unsupported type'')))\<rparr>"

text \<open>The same system where the built-in style sheet \<^verbatim>\<open>cfg/always.css\<close> is missing, so that
  copying it fails, and any other file is copied.\<close>

definition css_fail_ext :: ext where
  "css_fail_ext =
     demo_ext\<lparr>utils_CopyFile :=
       (\<lambda>w d s. if s = ''cfg/always.css''
                then Some (errorString ''open cfg/always.css: no such file or directory'')
                else None)\<rparr>"

text \<open>The HTML report of \<open>demo_Runner\<close> in these systems, byte by byte.\<close>

definition demo_html :: string where
  \<open>demo_html =
     ''<!DOCTYPE html>'' @ nl @
     ''<html>'' @ nl @
     ''<head>'' @ nl @
     ''<meta charset="utf-8">'' @ nl @
     ''<title>Report: Demo</title>'' @ nl @
     ''<link rel="stylesheet" type="text/css" href="always.css">'' @ nl @
     ''<link rel="stylesheet" type="text/css" href="report_def.css">'' @ nl @
     ''</head>'' @ nl @
     ''<body>'' @ nl @
     ''<p>ok</p></body>'' @ nl @
     ''</html>'' @ nl\<close>

section \<open>Properties\<close>

lemma ToSlash_windows: "CHR 0x5C \<notin> set (ToSlash ''windows'' p)"
  by (induction p) (simp_all add: ToSlash_def)

lemma ToSlash_other: "goos \<noteq> ''windows'' \<Longrightarrow> ToSlash goos p = p"
  by (simp add: ToSlash_def)

text \<open>Claim C5. After \<^verbatim>\<open>setWorkDir\<close>, the working directory is \<^verbatim>\<open>filepath.ToSlash\<close> of
  \<open>basedir\<close> when \<open>basedir\<close> is not empty. When it is empty, the working directory is
  \<^verbatim>\<open>filepath.ToSlash\<close> of \<^verbatim>\<open>path.Join\<close> of the home directory (\<^verbatim>\<open>USERPROFILE\<close> on Windows,
  \<^verbatim>\<open>HOME\<close> elsewhere), \<^verbatim>\<open>atfrunner\<close> and the name of the test set, an underscore and the time
  stamp. On Windows the result has no backslash, each one being replaced by a slash;
  elsewhere, where the separator is the slash already, \<^verbatim>\<open>ToSlash\<close> changes nothing.\<close>

theorem setWorkDir_result:
  "(basedir \<noteq> [] \<longrightarrow>
      workdir (fst (setWorkDir X basedir tsName r w)) = ToSlash (runtime_GOOS X) basedir) \<and>
   (basedir = [] \<longrightarrow>
      workdir (fst (setWorkDir X basedir tsName r w)) =
        ToSlash (runtime_GOOS X)
          (path_Join
             [os_Getenv X w (if runtime_GOOS X = ''windows'' then ''USERPROFILE'' else ''HOME''),
              ''atfrunner'',
              tsName @ ''_'' @
                utils_NowFile X
                  (w @ [Call_Getenv
                          (if runtime_GOOS X = ''windows'' then ''USERPROFILE'' else ''HOME'')])])) \<and>
   (runtime_GOOS X = ''windows'' \<longrightarrow>
      CHR 0x5C \<notin> set (workdir (fst (setWorkDir X basedir tsName r w))) \<and>
      ToSlash (runtime_GOOS X) basedir = map (\<lambda>c. if c = CHR 0x5C then CHR ''/'' else c) basedir) \<and>
   (runtime_GOOS X \<noteq> ''windows'' \<longrightarrow> ToSlash (runtime_GOOS X) basedir = basedir)"
proof (intro conjI impI)
  assume "runtime_GOOS X = ''windows''"
  then show "CHR 0x5C \<notin> set (workdir (fst (setWorkDir X basedir tsName r w)))"
    using ToSlash_windows by (simp add: setWorkDir_def Let_def)
qed (simp_all add: setWorkDir_def Let_def ToSlash_def)

lemma demo_ext_sel:
  "runtime_GOOS demo_ext = ''linux''"
  "os_Getenv demo_ext = (\<lambda>w v. if v = ''HOME'' then ''/home/u'' else [])"
  "utils_NowFile demo_ext = (\<lambda>w. ''2015_03_01_12_00_00'')"
  "utils_Now demo_ext = (\<lambda>w. ''2015-03-01 12:00:00'')"
  "strconv_Quote demo_ext = Quote_ascii"
  "atf_Collect demo_ext = (\<lambda>w p. Some \<lparr>Name = ''Demo''\<rparr>)"
  "atf_CreateTestReport demo_ext =
     (\<lambda>w ts. Some \<lparr>TestSet = Some ts, Started = [], Finished = []\<rparr>)"
  "os_MkdirAll demo_ext = (\<lambda>w p. None)"
  "utils_NewFileHandler demo_ext = (\<lambda>w f fm l. (True, None))"
  "utils_NewStreamHandler demo_ext = (\<lambda>w fm l. True)"
  "utils_NewSyslogHandler demo_ext = (\<lambda>w ip fm l. True)"
  "ts_Execute demo_ext = (\<lambda>w ts. [[''notice'', ''case 1 passed'']])"
  "tr_HTML demo_ext = (\<lambda>w t. (''<p>ok</p>'', None))"
  "tr_XML demo_ext = (\<lambda>w t. (''<report/>'', None))"
  "tr_JSON demo_ext = (\<lambda>w t. (''{}'', None))"
  "os_OpenFile demo_ext = (\<lambda>w f. None)"
  "os_Create demo_ext = (\<lambda>w f. None)"
  "utils_CopyFile demo_ext = (\<lambda>w d s. None)"
  by (simp_all add: demo_ext_def)

theorem setWorkDir_result_witness:
  "workdir (fst (setWorkDir demo_ext ''/tmp/x'' ''suiteA'' demo_Runner [])) = ''/tmp/x'' \<and>
   workdir (fst (setWorkDir demo_ext [] ''suiteA'' demo_Runner [])) =
     ''/home/u/atfrunner/suiteA_2015_03_01_12_00_00'' \<and>
   workdir (fst (setWorkDir (demo_ext\<lparr>runtime_GOOS := ''windows''\<rparr>) [CHR ''C'', CHR '':'', CHR 0x5C, CHR ''r''] ''suiteA'' demo_Runner [])) = ''C:/r''"
proof -
  have j: "path_Join [''/home/u'', ''atfrunner'', ''suiteA_2015_03_01_12_00_00''] =
           ''/home/u/atfrunner/suiteA_2015_03_01_12_00_00''"
    by code_simp
  show ?thesis
    using setWorkDir_result [of "''/tmp/x''" demo_ext "''suiteA''" demo_Runner "[]"]
      setWorkDir_result [of "[]" demo_ext "''suiteA''" demo_Runner "[]"]
      setWorkDir_result [of "[CHR ''C'', CHR '':'', CHR 0x5C, CHR ''r'']" "demo_ext\<lparr>runtime_GOOS := ''windows''\<rparr>" "''suiteA''" demo_Runner "[]"]
      j
    by (simp add: demo_ext_sel ToSlash_def)
qed

text \<open>Claim C3. With an empty input path \<^verbatim>\<open>initialize\<close> returns the error of \<^verbatim>\<open>collect\<close>,
  \<^verbatim>\<open>There's no configuration file defined.\<close>, and leaves the Runner and the world as they
  were: no call is made, so no directory and no log file is created.\<close>

theorem initialize_empty_input:
  "input r = [] \<Longrightarrow>
   initialize X r w =
     (Inr (Some (errorString ''There's no configuration file defined.'')), r, w)"
  by (simp add: initialize_def collect_def)

theorem initialize_empty_input_witness:
  "initialize demo_ext (demo_Runner\<lparr>input := [], workdir := []\<rparr>) [] =
     (Inr (Some (errorString ''There's no configuration file defined.'')),
      demo_Runner\<lparr>input := [], workdir := []\<rparr>, [])"
  using initialize_empty_input [of "demo_Runner\<lparr>input := [], workdir := []\<rparr>" demo_ext "[]"]
  by simp

lemma run_callbacks_panics:
  "\<exists>ps \<in> set calls. length ps < 2 \<Longrightarrow>
   \<exists>w'. run_callbacks calls w = (Inl (panic_value ''Callback: Wrong number of parameters.''), w')"
proof (induction calls arbitrary: w)
  case Nil
  then show ?case by simp
next
  case (Cons ps calls)
  show ?case
  proof (cases "length ps < 2")
    case True
    then show ?thesis by (simp add: callback_def)
  next
    case False
    with Cons.prems have "\<exists>ps \<in> set calls. length ps < 2" by auto
    from Cons.IH [OF this] False show ?thesis by (simp add: callback_def Let_def)
  qed
qed

text \<open>Claim C4. The logging closure panics when it gets fewer than two arguments, and
  makes no call then. With two or more it calls \<^verbatim>\<open>r.logger.LogS\<close> with the first as the
  level and the second as the message, and nothing else: the other arguments are not
  read. An executor that calls the closure with fewer than two arguments ends in that
  panic.\<close>

theorem callback_contract:
  "(length params < 2 \<longrightarrow>
      callback params w = (Inl (panic_value ''Callback: Wrong number of parameters.''), w)) \<and>
   (2 \<le> length params \<longrightarrow>
      callback params w = (Inr (), w @ [Log_LogS (params ! 0) (params ! 1)])) \<and>
   callback (lvl # msg # extra) w = (Inr (), w @ [Log_LogS lvl msg]) \<and>
   ((\<exists>ps \<in> set calls. length ps < 2) \<longrightarrow>
      fst (run_callbacks calls w) = Inl (panic_value ''Callback: Wrong number of parameters.''))"
proof (intro conjI impI)
  assume "\<exists>ps \<in> set calls. length ps < 2"
  from run_callbacks_panics [OF this, of w]
  show "fst (run_callbacks calls w) = Inl (panic_value ''Callback: Wrong number of parameters.'')"
    by auto
qed (simp_all add: callback_def Let_def)

theorem callback_contract_witness:
  "callback [''notice''] [] = (Inl (panic_value ''Callback: Wrong number of parameters.''), []) \<and>
   callback [''notice'', ''hello'', ''extra''] [] = (Inr (), [Log_LogS ''notice'' ''hello'']) \<and>
   fst (run_callbacks [[''notice'', ''hello''], []] []) =
     Inl (panic_value ''Callback: Wrong number of parameters.'')"
  using callback_contract [of "[''notice'']" "[]" "''a''" "''b''" "[]" "[[''notice'', ''hello''], []]"]
    callback_contract [of "[''notice'', ''hello'', ''extra'']" "[]" "''a''" "''b''" "[]" "[]"]
  by simp

text \<open>Claim C6. Whatever the constructors of the handlers answer, \<^verbatim>\<open>createLoggers\<close> only adds
  handlers to the logger and only makes calls, the first of them the construction of the
  file handler. Every file handler it constructs or adds has the level Informational, and
  every stream and every syslog handler the level Notice; with \<open>debug\<close> set all of them have
  the level Debug.\<close>

theorem createLoggers_levels:
  "createLoggers X format dbg r w = (err, r', w') \<Longrightarrow>
   \<exists>hs calls.
     Handlers (logger r') = Handlers (logger r) @ hs \<and> w' = w @ calls \<and>
     Call_NewFileHandler (logfile r) format (if dbg then Debug else Informational) \<in> set calls \<and>
     (\<forall>f fm l. FileHandler f fm l \<in> set hs \<or> Call_NewFileHandler f fm l \<in> set calls \<longrightarrow>
        l = (if dbg then Debug else Informational)) \<and>
     (\<forall>fm l. StreamHandler fm l \<in> set hs \<or> Call_NewStreamHandler fm l \<in> set calls \<longrightarrow>
        l = (if dbg then Debug else Notice)) \<and>
     (\<forall>ip fm l. SyslogHandler ip fm l \<in> set hs \<or> Call_NewSyslogHandler ip fm l \<in> set calls \<longrightarrow>
        l = (if dbg then Debug else Notice))"
  by (auto simp: createLoggers_def Let_def AddHandler_def defFileLevel_def defSyslogLevel_def
      split: option.splits if_splits)

lemma demo_createLoggers:
  "createLoggers demo_ext ''%s %s %s'' False (demo_Runner\<lparr>syslog := ''10.0.0.1''\<rparr>) [] =
     (None,
      demo_Runner\<lparr>syslog := ''10.0.0.1'',
        logger := \<lparr>Handlers = [FileHandler ''/tmp/w/output.log'' ''%s %s %s'' Informational,
                               StreamHandler ''%s %s %s'' Notice,
                               SyslogHandler ''10.0.0.1'' ''%s %s %s'' Notice]\<rparr>\<rparr>,
      [Call_NewFileHandler ''/tmp/w/output.log'' ''%s %s %s'' Informational,
       Call_NewStreamHandler ''%s %s %s'' Notice,
       Call_NewSyslogHandler ''10.0.0.1'' ''%s %s %s'' Notice])"
  by (simp add: createLoggers_def Let_def AddHandler_def defFileLevel_def defSyslogLevel_def
      demo_ext_def demo_Runner_def)

theorem createLoggers_levels_witness:
  "createLoggers demo_ext ''%s %s %s'' False (demo_Runner\<lparr>syslog := ''10.0.0.1''\<rparr>) [] =
     (None,
      demo_Runner\<lparr>syslog := ''10.0.0.1'',
        logger := \<lparr>Handlers = [FileHandler ''/tmp/w/output.log'' ''%s %s %s'' Informational,
                               StreamHandler ''%s %s %s'' Notice,
                               SyslogHandler ''10.0.0.1'' ''%s %s %s'' Notice]\<rparr>\<rparr>,
      [Call_NewFileHandler ''/tmp/w/output.log'' ''%s %s %s'' Informational,
       Call_NewStreamHandler ''%s %s %s'' Notice,
       Call_NewSyslogHandler ''10.0.0.1'' ''%s %s %s'' Notice]) \<and>
   (\<exists>hs calls.
      [FileHandler ''/tmp/w/output.log'' ''%s %s %s'' Informational,
       StreamHandler ''%s %s %s'' Notice,
       SyslogHandler ''10.0.0.1'' ''%s %s %s'' Notice] = hs \<and>
      [Call_NewFileHandler ''/tmp/w/output.log'' ''%s %s %s'' Informational,
       Call_NewStreamHandler ''%s %s %s'' Notice,
       Call_NewSyslogHandler ''10.0.0.1'' ''%s %s %s'' Notice] = calls \<and>
      (\<forall>f fm l. FileHandler f fm l \<in> set hs \<or> Call_NewFileHandler f fm l \<in> set calls \<longrightarrow>
         l = Informational) \<and>
      (\<forall>fm l. StreamHandler fm l \<in> set hs \<or> Call_NewStreamHandler fm l \<in> set calls \<longrightarrow>
         l = Notice) \<and>
      (\<forall>ip fm l. SyslogHandler ip fm l \<in> set hs \<or> Call_NewSyslogHandler ip fm l \<in> set calls \<longrightarrow>
         l = Notice))"
  using createLoggers_levels [OF demo_createLoggers] demo_createLoggers
  by (simp add: demo_Runner_def)

lemma demo_Run:
  "Run demo_ext demo_Runner [] =
     (Inr (),
      demo_Runner\<lparr>tr := Some \<lparr>TestSet = Some \<lparr>Name = ''Demo''\<rparr>,
                                Started = ''2015-03-01 12:00:00'',
                                Finished = ''2015-03-01 12:00:00''\<rparr>\<rparr>,
      [Call_Now,
       Log_Notice (''     Started: 2015-03-01 12:00:00'' @ nl),
       Log_Notice (''# Starting Test set: '' @ Quote_ascii ''Demo'' @ nl),
       Call_Execute \<lparr>Name = ''Demo''\<rparr>,
       Log_LogS ''notice'' ''case 1 passed'',
       Call_Now,
       Log_Notice (''# Test set: '' @ Quote_ascii ''Demo'' @ '' end.'' @ nl),
       Log_Notice (''     Finished: 2015-03-01 12:00:00'' @ nl)])"
  by (simp add: Run_def Let_def callback_def demo_ext_def demo_Runner_def)

text \<open>Claim C9. When the report has no test set, \<^verbatim>\<open>Run\<close> logs the start, skips the
  executor, writes \<^verbatim>\<open>r.tr.Finished\<close> and panics on reading \<^verbatim>\<open>r.tr.TestSet.Name\<close>: neither the
  line of the end of the test set nor the \<^verbatim>\<open>Finished\<close> line is logged. Whenever \<^verbatim>\<open>Run\<close>
  returns, the report and its test set are not nil.\<close>

theorem Run_nil_TestSet:
  "(tr r = Some t \<and> TestSet t = None \<longrightarrow>
      Run X r w =
        (Inl nil_dereference,
         r\<lparr>tr := Some (t\<lparr>Started := utils_Now X w,
                          Finished := utils_Now X
                            (w @ [Call_Now, Log_Notice (''     Started: '' @ utils_Now X w @ nl)])\<rparr>)\<rparr>,
         w @ [Call_Now, Log_Notice (''     Started: '' @ utils_Now X w @ nl), Call_Now])) \<and>
   (Run X r w = (Inr u, r', w') \<longrightarrow> (\<exists>t ts. tr r = Some t \<and> TestSet t = Some ts))"
  by (auto simp: Run_def Let_def split: option.splits prod.splits sum.splits)

theorem Run_nil_TestSet_witness:
  "Run demo_ext (demo_Runner\<lparr>tr := Some \<lparr>TestSet = None, Started = [], Finished = []\<rparr>\<rparr>) [] =
     (Inl nil_dereference,
      demo_Runner\<lparr>tr := Some \<lparr>TestSet = None, Started = ''2015-03-01 12:00:00'',
                                Finished = ''2015-03-01 12:00:00''\<rparr>\<rparr>,
      [Call_Now, Log_Notice (''     Started: 2015-03-01 12:00:00'' @ nl), Call_Now]) \<and>
   fst (Run demo_ext demo_Runner []) = Inr () \<and>
   (\<exists>t ts. tr demo_Runner = Some t \<and> TestSet t = Some ts)"
  using Run_nil_TestSet
      [of "demo_Runner\<lparr>tr := Some \<lparr>TestSet = None, Started = [], Finished = []\<rparr>\<rparr>"
          "\<lparr>TestSet = None, Started = [], Finished = []\<rparr>" demo_ext "[]"]
    Run_nil_TestSet [of demo_Runner _ demo_ext "[]" "()"] demo_Run
  by (simp add: demo_ext_def)

lemma createHTMLReport_events:
  "createHTMLReport X f r w = (res, w1) \<Longrightarrow>
   \<exists>evs. w1 = w @ evs \<and> Call_XML \<notin> set evs \<and> Call_JSON \<notin> set evs"
  by (auto simp: createHTMLReport_def Let_def split: option.splits prod.splits)

lemma createXMLReport_events:
  "createXMLReport X f r w = (res, w1) \<Longrightarrow> \<exists>evs. w1 = w @ evs \<and> Call_JSON \<notin> set evs"
  by (auto simp: createXMLReport_def Let_def split: option.splits prod.splits)

lemma CreateReports_HTML_failure:
  "createHTMLReport X (ToSlash (runtime_GOOS X) (path_Join [workdir r, ''report.html''])) r w =
     (Inr (Some e), w1) \<Longrightarrow>
   CreateReports X r w =
     (Inr (), w1 @ [Log_Error (''XML report could not be created.'' @ nl),
                    Log_Error (''Reason: '' @ Error_text e @ nl)])"
  by (simp add: CreateReports_def Let_def)

lemma CreateReports_XML_failure:
  "createHTMLReport X (ToSlash (runtime_GOOS X) (path_Join [workdir r, ''report.html''])) r w =
     (Inr None, w1) \<Longrightarrow>
   xml r \<Longrightarrow>
   createXMLReport X (ToSlash (runtime_GOOS X) (path_Join [workdir r, ''report.xml''])) r
     (w1 @ [Log_Notice (''HTML report '' @
              strconv_Quote X (ToSlash (runtime_GOOS X) (path_Join [workdir r, ''report.html''])) @
              '' created.'' @ nl)]) = (Inr (Some e), w2) \<Longrightarrow>
   CreateReports X r w =
     (Inr (), w2 @ [Log_Error (''XML report could not be created.'' @ nl),
                    Log_Error (''Reason: '' @ Error_text e @ nl)])"
  by (simp add: CreateReports_def Let_def)

lemma demo_paths:
  "path_Join [''/tmp/w'', ''report.html''] = ''/tmp/w/report.html''"
  "path_Join [''/tmp/w'', ''report.xml''] = ''/tmp/w/report.xml''"
  "path_Join [''/tmp/w'', ''report.json''] = ''/tmp/w/report.json''"
  "path_Join [''/tmp/w'', ''always.css''] = ''/tmp/w/always.css''"
  "path_Join [''/tmp/w'', ''report_def.css''] = ''/tmp/w/report_def.css''"
  "snd (path_Split ''cfg/always.css'') = ''always.css''"
  "snd (path_Split ''cfg/report_def.css'') = ''report_def.css''"
  by code_simp+

lemma demo_header: "createHTMLHeader demo_ext demo_Runner ''Demo'' @ ''<body>'' @ nl @
    ''<p>ok</p>'' @ ''</body>'' @ nl @ ''</html>'' @ nl = demo_html"
  by (simp add: createHTMLHeader_def demo_html_def mandatoryCSS_def demo_paths demo_ext_def
      demo_Runner_def Quote_ascii_def)

lemma demo_Runner_sel:
  "tr demo_Runner = Some \<lparr>TestSet = Some \<lparr>Name = ''Demo''\<rparr>, Started = [], Finished = []\<rparr>"
  "workdir demo_Runner = ''/tmp/w''"
  "cssfile demo_Runner = ''cfg/report_def.css''"
  "xml demo_Runner"
  "json demo_Runner"
  by (simp_all add: demo_Runner_def)

lemma demo_like_createHTMLReport:
  assumes "strconv_Quote X = Quote_ascii"
    and "tr_HTML X = (\<lambda>w t. (''<p>ok</p>'', None))"
    and "os_OpenFile X = (\<lambda>w f. None)"
  shows "createHTMLReport X ''/tmp/w/report.html'' demo_Runner [] =
     (Inr (utils_CopyFile X
             [Call_HTML, Call_OpenFile ''/tmp/w/report.html'',
              Call_Fprint ''/tmp/w/report.html'' demo_html,
              Call_CopyFile ''/tmp/w/always.css'' ''cfg/always.css'']
             ''/tmp/w/report_def.css'' ''cfg/report_def.css''),
      [Call_HTML, Call_OpenFile ''/tmp/w/report.html'',
       Call_Fprint ''/tmp/w/report.html'' demo_html,
       Call_CopyFile ''/tmp/w/always.css'' ''cfg/always.css'',
       Call_CopyFile ''/tmp/w/report_def.css'' ''cfg/report_def.css'',
       Call_Close ''/tmp/w/report.html''])"
proof -
  have hdr: "createHTMLHeader X demo_Runner ''Demo'' =
      createHTMLHeader demo_ext demo_Runner ''Demo''"
    by (simp add: createHTMLHeader_def assms(1) demo_ext_def)
  show ?thesis
    using demo_header
    by (simp add: createHTMLReport_def Let_def demo_Runner_sel assms(2,3) hdr mandatoryCSS_def
        demo_paths)
qed

lemma demo_createHTMLReport:
  "createHTMLReport demo_ext ''/tmp/w/report.html'' demo_Runner [] =
     (Inr None,
      [Call_HTML, Call_OpenFile ''/tmp/w/report.html'',
       Call_Fprint ''/tmp/w/report.html'' demo_html,
       Call_CopyFile ''/tmp/w/always.css'' ''cfg/always.css'',
       Call_CopyFile ''/tmp/w/report_def.css'' ''cfg/report_def.css'',
       Call_Close ''/tmp/w/report.html''])"
  using demo_like_createHTMLReport [of demo_ext] by (simp add: demo_ext_def)

lemma xml_fail_createHTMLReport:
  "createHTMLReport xml_fail_ext ''/tmp/w/report.html'' demo_Runner [] =
     (Inr None,
      [Call_HTML, Call_OpenFile ''/tmp/w/report.html'',
       Call_Fprint ''/tmp/w/report.html'' demo_html,
       Call_CopyFile ''/tmp/w/always.css'' ''cfg/always.css'',
       Call_CopyFile ''/tmp/w/report_def.css'' ''cfg/report_def.css'',
       Call_Close ''/tmp/w/report.html''])"
  using demo_like_createHTMLReport [of xml_fail_ext] by (simp add: xml_fail_ext_def demo_ext_def)

lemma xml_fail_createXMLReport:
  "createXMLReport xml_fail_ext ''/tmp/w/report.xml'' demo_Runner w =
     (Inr (Some (errorString ''xml: unsupported type'')), w @ [Call_XML])"
  by (simp add: createXMLReport_def Let_def xml_fail_ext_def demo_ext_def demo_Runner_def)

lemma html_fail_createHTMLReport:
  "createHTMLReport html_fail_ext ''/tmp/w/report.html'' demo_Runner [] =
     (Inr (Some (errorString ''open /tmp/w/report.html: permission denied'')),
      [Call_HTML, Call_OpenFile ''/tmp/w/report.html''])"
  by (simp add: createHTMLReport_def Let_def html_fail_ext_def demo_ext_def demo_Runner_def)

lemma fail_paths:
  "ToSlash (runtime_GOOS html_fail_ext) (path_Join [workdir demo_Runner, ''report.html'']) =
     ''/tmp/w/report.html''"
  "ToSlash (runtime_GOOS xml_fail_ext) (path_Join [workdir demo_Runner, ''report.html'']) =
     ''/tmp/w/report.html''"
  "ToSlash (runtime_GOOS xml_fail_ext) (path_Join [workdir demo_Runner, ''report.xml'']) =
     ''/tmp/w/report.xml''"
  "strconv_Quote xml_fail_ext = Quote_ascii"
  by (simp_all add: html_fail_ext_def xml_fail_ext_def demo_ext_def demo_Runner_def ToSlash_def
      demo_paths)

lemma html_fail_at_path:
  "createHTMLReport html_fail_ext
     (ToSlash (runtime_GOOS html_fail_ext) (path_Join [workdir demo_Runner, ''report.html'']))
     demo_Runner [] =
     (Inr (Some (errorString ''open /tmp/w/report.html: permission denied'')),
      [Call_HTML, Call_OpenFile ''/tmp/w/report.html''])"
  by (simp only: fail_paths html_fail_createHTMLReport)

lemma xml_fail_at_path:
  "createHTMLReport xml_fail_ext
     (ToSlash (runtime_GOOS xml_fail_ext) (path_Join [workdir demo_Runner, ''report.html'']))
     demo_Runner [] =
     (Inr None,
      [Call_HTML, Call_OpenFile ''/tmp/w/report.html'',
       Call_Fprint ''/tmp/w/report.html'' demo_html,
       Call_CopyFile ''/tmp/w/always.css'' ''cfg/always.css'',
       Call_CopyFile ''/tmp/w/report_def.css'' ''cfg/report_def.css'',
       Call_Close ''/tmp/w/report.html''])"
  "createXMLReport xml_fail_ext
     (ToSlash (runtime_GOOS xml_fail_ext) (path_Join [workdir demo_Runner, ''report.xml'']))
     demo_Runner W =
     (Inr (Some (errorString ''xml: unsupported type'')), W @ [Call_XML])"
  by (simp_all only: fail_paths xml_fail_createHTMLReport xml_fail_createXMLReport)

lemma label_without_HTML: "\<not> sublist ''HTML'' (''XML report could not be created.'' @ nl)"
  by code_simp

text \<open>Claim C1. When \<^verbatim>\<open>createHTMLReport\<close> returns an error, \<^verbatim>\<open>CreateReports\<close> returns after
  logging at Error level, and among the calls it has made there is none to the renderer of
  the XML report and none to the renderer of the JSON report, whatever \<open>xml r\<close> and \<open>json r\<close>
  are. When the HTML report is written and \<^verbatim>\<open>createXMLReport\<close> returns an error,
  \<^verbatim>\<open>CreateReports\<close> returns after logging at Error level without a call to the renderer of
  the JSON report.\<close>

theorem CreateReports_stops_at_first_failure:
  "(createHTMLReport X (ToSlash (runtime_GOOS X) (path_Join [workdir r, ''report.html''])) r w =
      (Inr (Some e), w1) \<longrightarrow>
    (\<exists>evs m. CreateReports X r w = (Inr (), w @ evs) \<and> Log_Error m \<in> set evs \<and>
       Call_XML \<notin> set evs \<and> Call_JSON \<notin> set evs)) \<and>
   (createHTMLReport X (ToSlash (runtime_GOOS X) (path_Join [workdir r, ''report.html''])) r w =
      (Inr None, w1) \<and>
    xml r \<and>
    createXMLReport X (ToSlash (runtime_GOOS X) (path_Join [workdir r, ''report.xml''])) r
      (w1 @ [Log_Notice (''HTML report '' @
               strconv_Quote X (ToSlash (runtime_GOOS X) (path_Join [workdir r, ''report.html''])) @
               '' created.'' @ nl)]) = (Inr (Some e), w2) \<longrightarrow>
    (\<exists>evs m. CreateReports X r w = (Inr (), w @ evs) \<and> Log_Error m \<in> set evs \<and>
       Call_JSON \<notin> set evs))"
proof (intro conjI impI)
  assume h: "createHTMLReport X (ToSlash (runtime_GOOS X) (path_Join [workdir r, ''report.html''])) r w =
      (Inr (Some e), w1)"
  from createHTMLReport_events [OF h] obtain evs
    where evs: "w1 = w @ evs" "Call_XML \<notin> set evs" "Call_JSON \<notin> set evs" by blast
  let ?new = "evs @ [Log_Error (''XML report could not be created.'' @ nl),
                     Log_Error (''Reason: '' @ Error_text e @ nl)]"
  have "CreateReports X r w = (Inr (), w @ ?new)"
    using CreateReports_HTML_failure [OF h] evs(1) by simp
  moreover have "Log_Error (''XML report could not be created.'' @ nl) \<in> set ?new" by simp
  moreover have "Call_XML \<notin> set ?new" "Call_JSON \<notin> set ?new" using evs by simp_all
  ultimately show "\<exists>evs m. CreateReports X r w = (Inr (), w @ evs) \<and> Log_Error m \<in> set evs \<and>
       Call_XML \<notin> set evs \<and> Call_JSON \<notin> set evs" by blast
next
  let ?notice = "Log_Notice (''HTML report '' @
               strconv_Quote X (ToSlash (runtime_GOOS X) (path_Join [workdir r, ''report.html''])) @
               '' created.'' @ nl)"
  assume a: "createHTMLReport X (ToSlash (runtime_GOOS X) (path_Join [workdir r, ''report.html''])) r w =
      (Inr None, w1) \<and>
    xml r \<and>
    createXMLReport X (ToSlash (runtime_GOOS X) (path_Join [workdir r, ''report.xml''])) r
      (w1 @ [?notice]) = (Inr (Some e), w2)"
  then have h: "createHTMLReport X (ToSlash (runtime_GOOS X) (path_Join [workdir r, ''report.html''])) r w =
      (Inr None, w1)"
    and x: "xml r"
    and hx: "createXMLReport X (ToSlash (runtime_GOOS X) (path_Join [workdir r, ''report.xml''])) r
      (w1 @ [?notice]) = (Inr (Some e), w2)" by blast+
  from createHTMLReport_events [OF h] obtain evs
    where evs: "w1 = w @ evs" "Call_JSON \<notin> set evs" by blast
  from createXMLReport_events [OF hx] obtain evs'
    where evs': "w2 = (w1 @ [?notice]) @ evs'" "Call_JSON \<notin> set evs'" by blast
  let ?new = "evs @ [?notice] @ evs' @ [Log_Error (''XML report could not be created.'' @ nl),
                     Log_Error (''Reason: '' @ Error_text e @ nl)]"
  have "CreateReports X r w = (Inr (), w @ ?new)"
    using CreateReports_XML_failure [OF h x hx] evs(1) evs'(1) by simp
  moreover have "Log_Error (''XML report could not be created.'' @ nl) \<in> set ?new" by simp
  moreover have "Call_JSON \<notin> set ?new" using evs evs' by simp
  ultimately show "\<exists>evs m. CreateReports X r w = (Inr (), w @ evs) \<and> Log_Error m \<in> set evs \<and>
       Call_JSON \<notin> set evs" by blast
qed

theorem CreateReports_stops_at_first_failure_witness:
  "(\<exists>evs m. CreateReports html_fail_ext demo_Runner [] = (Inr (), [] @ evs) \<and>
      Log_Error m \<in> set evs \<and> Call_XML \<notin> set evs \<and> Call_JSON \<notin> set evs) \<and>
   (\<exists>evs m. CreateReports xml_fail_ext demo_Runner [] = (Inr (), [] @ evs) \<and>
      Log_Error m \<in> set evs \<and> Call_JSON \<notin> set evs) \<and>
   xml demo_Runner \<and> json demo_Runner"
proof -
  have "\<exists>evs m. CreateReports html_fail_ext demo_Runner [] = (Inr (), [] @ evs) \<and>
      Log_Error m \<in> set evs \<and> Call_XML \<notin> set evs \<and> Call_JSON \<notin> set evs"
    by (rule CreateReports_stops_at_first_failure [THEN conjunct1, rule_format])
       (rule html_fail_at_path)
  moreover
  have "\<exists>evs m. CreateReports xml_fail_ext demo_Runner [] = (Inr (), [] @ evs) \<and>
      Log_Error m \<in> set evs \<and> Call_JSON \<notin> set evs"
    by (rule CreateReports_stops_at_first_failure [THEN conjunct2, rule_format])
       (intro conjI, rule xml_fail_at_path(1), rule demo_Runner_sel(4), rule xml_fail_at_path(2))
  ultimately show ?thesis
    by (simp only: demo_Runner_sel simp_thms)
qed

text \<open>Claim C10. When \<^verbatim>\<open>createHTMLReport\<close> returns an error, \<^verbatim>\<open>CreateReports\<close> logs two lines
  at Error level and returns: first \<^verbatim>\<open>XML report could not be created.\<close> with a line feed,
  then \<^verbatim>\<open>Reason:\<close> with the text of the error. The first line is the one logged when
  \<^verbatim>\<open>createXMLReport\<close> returns an error, and the word HTML is not in it.\<close>

theorem CreateReports_HTML_failure_message:
  "(createHTMLReport X (ToSlash (runtime_GOOS X) (path_Join [workdir r, ''report.html''])) r w =
      (Inr (Some e), w1) \<longrightarrow>
    CreateReports X r w =
      (Inr (), w1 @ [Log_Error (''XML report could not be created.'' @ nl),
                     Log_Error (''Reason: '' @ Error_text e @ nl)])) \<and>
   (createHTMLReport X (ToSlash (runtime_GOOS X) (path_Join [workdir r, ''report.html''])) r w =
      (Inr None, w1) \<and>
    xml r \<and>
    createXMLReport X (ToSlash (runtime_GOOS X) (path_Join [workdir r, ''report.xml''])) r
      (w1 @ [Log_Notice (''HTML report '' @
               strconv_Quote X (ToSlash (runtime_GOOS X) (path_Join [workdir r, ''report.html''])) @
               '' created.'' @ nl)]) = (Inr (Some e), w2) \<longrightarrow>
    CreateReports X r w =
      (Inr (), w2 @ [Log_Error (''XML report could not be created.'' @ nl),
                     Log_Error (''Reason: '' @ Error_text e @ nl)])) \<and>
   \<not> sublist ''HTML'' (''XML report could not be created.'' @ nl)"
  using CreateReports_HTML_failure [of X r w e w1] CreateReports_XML_failure [of X r w w1 e w2]
    label_without_HTML
  by blast

theorem CreateReports_HTML_failure_message_witness:
  "CreateReports html_fail_ext demo_Runner [] =
     (Inr (),
      [Call_HTML, Call_OpenFile ''/tmp/w/report.html'',
       Log_Error (''XML report could not be created.'' @ nl),
       Log_Error (''Reason: open /tmp/w/report.html: permission denied'' @ nl)]) \<and>
   CreateReports xml_fail_ext demo_Runner [] =
     (Inr (),
      [Call_HTML, Call_OpenFile ''/tmp/w/report.html'',
       Call_Fprint ''/tmp/w/report.html'' demo_html,
       Call_CopyFile ''/tmp/w/always.css'' ''cfg/always.css'',
       Call_CopyFile ''/tmp/w/report_def.css'' ''cfg/report_def.css'',
       Call_Close ''/tmp/w/report.html'',
       Log_Notice (''HTML report '' @ Quote_ascii ''/tmp/w/report.html'' @ '' created.'' @ nl),
       Call_XML,
       Log_Error (''XML report could not be created.'' @ nl),
       Log_Error (''Reason: xml: unsupported type'' @ nl)])"
proof -
  note a = CreateReports_HTML_failure_message
      [THEN conjunct1, rule_format, OF html_fail_at_path]
  note b = CreateReports_HTML_failure_message
      [THEN conjunct2, THEN conjunct1, rule_format,
       OF conjI [OF xml_fail_at_path(1) conjI [OF demo_Runner_sel(4) xml_fail_at_path(2)]]]
  from a b show ?thesis
    by (simp add: fail_paths)
qed

text \<open>Claim C2, at an input where it fails. In \<open>css_fail_ext\<close> the copy of the built-in
  style sheet returns an error and the copy of the user's style sheet succeeds:
  \<^verbatim>\<open>createHTMLReport\<close> makes both copies and returns \<^verbatim>\<open>nil\<close>.\<close>

theorem createHTMLReport_drops_first_copy_error:
  "utils_CopyFile css_fail_ext
     [Call_HTML, Call_OpenFile ''/tmp/w/report.html'',
      Call_Fprint ''/tmp/w/report.html'' demo_html]
     ''/tmp/w/always.css'' mandatoryCSS =
     Some (errorString ''open cfg/always.css: no such file or directory'') \<and>
   createHTMLReport css_fail_ext ''/tmp/w/report.html'' demo_Runner [] =
     (Inr None,
      [Call_HTML, Call_OpenFile ''/tmp/w/report.html'',
       Call_Fprint ''/tmp/w/report.html'' demo_html,
       Call_CopyFile ''/tmp/w/always.css'' ''cfg/always.css'',
       Call_CopyFile ''/tmp/w/report_def.css'' ''cfg/report_def.css'',
       Call_Close ''/tmp/w/report.html''])"
  using demo_like_createHTMLReport [of css_fail_ext]
  by (simp add: css_fail_ext_def demo_ext_def mandatoryCSS_def)

lemma body_absent: \<open>\<not> sublist ''<body><p>ok</p></body>'' demo_html\<close>
  by code_simp

lemma title_present: \<open>sublist ''<title>Report: Demo</title>'' demo_html\<close>
  by code_simp

lemma sublist_mid: "sublist xs (ps @ xs @ ss)"
  unfolding sublist_def by blast

text \<open>Claim C7, at an input where it fails. For the test set \<^verbatim>\<open>Demo\<close> and the fragment
  \<^verbatim>\<open><p>ok</p>\<close> the report is written and \<^verbatim>\<open>createHTMLReport\<close> returns \<^verbatim>\<open>nil\<close>; the text
  written has the title, and has no \<^verbatim>\<open><body><p>ok</p></body>\<close> in it, a line feed
  being written after \<^verbatim>\<open><body>\<close>.\<close>

theorem createHTMLReport_body_counterexample:
  \<open>createHTMLReport demo_ext ''/tmp/w/report.html'' demo_Runner [] =
     (Inr None,
      [Call_HTML, Call_OpenFile ''/tmp/w/report.html'',
       Call_Fprint ''/tmp/w/report.html'' demo_html,
       Call_CopyFile ''/tmp/w/always.css'' ''cfg/always.css'',
       Call_CopyFile ''/tmp/w/report_def.css'' ''cfg/report_def.css'',
       Call_Close ''/tmp/w/report.html'']) \<and>
   sublist ''<title>Report: Demo</title>'' demo_html \<and>
   \<not> sublist ''<body><p>ok</p></body>'' demo_html\<close>
  using demo_createHTMLReport title_present body_absent by simp

text \<open>Claim C7, amended. When \<^verbatim>\<open>createHTMLReport\<close> returns \<^verbatim>\<open>nil\<close> for a test set named
  \<^verbatim>\<open>Demo\<close> and the rendered fragment \<^verbatim>\<open><p>ok</p>\<close>, it has rendered the fragment, opened the
  file and written one text to it, and that text contains \<^verbatim>\<open><title>Report: Demo</title>\<close>
  and contains \<^verbatim>\<open><body>\<close>, a line feed and \<^verbatim>\<open><p>ok</p></body>\<close>.\<close>

theorem createHTMLReport_written_document:
  assumes "tr r = Some t" and "TestSet t = Some ts" and "Name ts = ''Demo''"
    and "tr_HTML X w t = (''<p>ok</p>'', None)"
    and "createHTMLReport X filename r w = (Inr None, w')"
  shows "\<exists>content rest.
           w' = w @ [Call_HTML, Call_OpenFile filename, Call_Fprint filename content] @ rest \<and>
           sublist ''<title>Report: Demo</title>'' content \<and>
           sublist (''<body>'' @ nl @ ''<p>ok</p></body>'') content"
proof -
  let ?pre = "''<!DOCTYPE html>'' @ nl @ ''<html>'' @ nl @ ''<head>'' @ nl @
     ''<meta charset='' @ strconv_Quote X ''utf-8'' @ ''>'' @ nl"
  let ?content = "createHTMLHeader X r ''Demo'' @ ''<body>'' @ nl @ ''<p>ok</p>'' @
     ''</body>'' @ nl @ ''</html>'' @ nl"
  have open_ok: "os_OpenFile X (w @ [Call_HTML]) filename = None"
    using assms by (auto simp: createHTMLReport_def Let_def split: option.splits)
  have w': "w' = w @ [Call_HTML, Call_OpenFile filename, Call_Fprint filename ?content] @
      [Call_CopyFile (path_Join [workdir r, snd (path_Split mandatoryCSS)]) mandatoryCSS,
       Call_CopyFile (path_Join [workdir r, snd (path_Split (cssfile r))]) (cssfile r),
       Call_Close filename]"
    using assms open_ok by (simp add: createHTMLReport_def Let_def)
  have "\<exists>ps ss. createHTMLHeader X r ''Demo'' = ps @ ''<title>Report: Demo</title>'' @ ss"
    unfolding createHTMLHeader_def
    by (rule exI [of _ ?pre]) (simp add: exI)
  then obtain ps ss where hd: "createHTMLHeader X r ''Demo'' = ps @ ''<title>Report: Demo</title>'' @ ss"
    by blast
  have "?content = ps @ ''<title>Report: Demo</title>'' @
      (ss @ ''<body>'' @ nl @ ''<p>ok</p>'' @ ''</body>'' @ nl @ ''</html>'' @ nl)"
    by (simp only: hd append_assoc)
  then have t: "sublist ''<title>Report: Demo</title>'' ?content"
    using sublist_mid by metis
  have "?content = createHTMLHeader X r ''Demo'' @ (''<body>'' @ nl @ ''<p>ok</p></body>'') @
      (nl @ ''</html>'' @ nl)"
    by simp
  then have b: "sublist (''<body>'' @ nl @ ''<p>ok</p></body>'') ?content"
    using sublist_mid by metis
  from w' t b show ?thesis by blast
qed

theorem createHTMLReport_written_document_witness:
  "\<exists>content rest.
     [Call_HTML, Call_OpenFile ''/tmp/w/report.html'',
      Call_Fprint ''/tmp/w/report.html'' demo_html,
      Call_CopyFile ''/tmp/w/always.css'' ''cfg/always.css'',
      Call_CopyFile ''/tmp/w/report_def.css'' ''cfg/report_def.css'',
      Call_Close ''/tmp/w/report.html''] =
       [] @ [Call_HTML, Call_OpenFile ''/tmp/w/report.html'',
             Call_Fprint ''/tmp/w/report.html'' content] @ rest \<and>
     sublist ''<title>Report: Demo</title>'' content \<and>
     sublist (''<body>'' @ nl @ ''<p>ok</p></body>'') content"
proof -
  have 1: "tr demo_Runner = Some \<lparr>TestSet = Some \<lparr>Name = ''Demo''\<rparr>, Started = [], Finished = []\<rparr>"
    by (simp add: demo_Runner_def)
  have 2: "TestSet \<lparr>TestSet = Some \<lparr>Name = ''Demo''\<rparr>, Started = [], Finished = []\<rparr> =
      Some \<lparr>Name = ''Demo''\<rparr>" by simp
  have 3: "Name \<lparr>Name = ''Demo''\<rparr> = ''Demo''" by simp
  have 4: "tr_HTML demo_ext [] \<lparr>TestSet = Some \<lparr>Name = ''Demo''\<rparr>, Started = [], Finished = []\<rparr> =
      (''<p>ok</p>'', None)" by (simp add: demo_ext_def)
  show ?thesis
    by (rule createHTMLReport_written_document [OF 1 2 3 4 demo_createHTMLReport])
qed

end
